theory Spec2Isabelle
  imports Main "HOL-Library.Word"
begin

section \<open>Piece.h: colours, positions and moves\<close>

text \<open>
  The value types of \<^verbatim>\<open>src/pieces/Piece.h\<close>. The C++ field names end in an
  underscore, which a HOL constant may not: a field \<^verbatim>\<open>x_\<close> of the source is the
  field \<open>x_m\<close> here, \<open>x_p\<close> in a piece and \<open>x_g\<close> in a game, so that the fields
  \<^verbatim>\<open>color_\<close> and \<^verbatim>\<open>board_\<close> of two classes stay apart. \<^verbatim>\<open>Move::from\<close> is written
  \<open>from'\<close>. The coordinates are of type \<^verbatim>\<open>int\<close> and are only compared, never
  computed with, in this header.
\<close>

datatype Color = WHITE | BLACK

record Position =
  row :: int
  col :: int

definition Position_eq :: "Position \<Rightarrow> Position \<Rightarrow> bool" where
  "Position_eq a b = (row a = row b \<and> col a = col b)"

definition Position_ne :: "Position \<Rightarrow> Position \<Rightarrow> bool" where
  "Position_ne a b = (\<not> Position_eq a b)"

definition isValid :: "Position \<Rightarrow> bool" where
  "isValid p = (row p \<ge> 0 \<and> row p < 8 \<and> col p \<ge> 0 \<and> col p < 8)"

record Move =
  from' :: Position
  to :: Position

definition Move_eq :: "Move \<Rightarrow> Move \<Rightarrow> bool" where
  "Move_eq a b = (Position_eq (from' a) (from' b) \<and> Position_eq (to a) (to b))"

section \<open>Player.h: the player and its clock\<close>

text \<open>
  \<^verbatim>\<open>std::chrono::seconds\<close> counts seconds in a 64-bit signed integer, and the clock
  functions take the amount as an \<^verbatim>\<open>int\<close> of 32 bits, which the constructor of
  \<^verbatim>\<open>std::chrono::seconds\<close> widens with its sign (\<open>scast\<close>). Sums and differences
  of counts wrap round at 64 bits, as they do in the compiled program; a count is
  read as a signed number by \<open>sint\<close> and compared as one by \<open><s\<close>. The three
  counters of a player are of type \<^verbatim>\<open>int\<close>.
\<close>

record Player =
  name_m :: string
  color_m :: Color
  timeLeft_m :: "64 word"
  movesPlayed_m :: "32 word"
  isHuman_m :: bool
  capturedPieces_m :: "32 word"
  checksGiven_m :: "32 word"
  isInCheck_m :: bool

definition getTimeLeft :: "Player \<Rightarrow> 64 word" where
  "getTimeLeft p = timeLeft_m p"

definition addTime :: "32 word \<Rightarrow> Player \<Rightarrow> Player" where
  "addTime seconds p = p\<lparr>timeLeft_m := timeLeft_m p + scast seconds\<rparr>"

definition subtractTime :: "32 word \<Rightarrow> Player \<Rightarrow> Player" where
  "subtractTime seconds p =
     (let p1 = p\<lparr>timeLeft_m := timeLeft_m p - scast seconds\<rparr>
      in if timeLeft_m p1 <s 0 then p1\<lparr>timeLeft_m := 0\<rparr> else p1)"

definition setTimeLeft :: "32 word \<Rightarrow> Player \<Rightarrow> Player" where
  "setTimeLeft seconds p = p\<lparr>timeLeft_m := scast seconds\<rparr>"

definition hasTimeLeft :: "Player \<Rightarrow> bool" where
  "hasTimeLeft p = (0 <s timeLeft_m p)"

section \<open>Board.h: the board record and its last move\<close>

text \<open>
  A piece is an object of one of the six classes derived from \<^verbatim>\<open>Piece\<close>; the class
  is the \<open>kind\<close> of the record, the other fields are those of \<^verbatim>\<open>Piece\<close>. The
  one field a derived class adds, \<^verbatim>\<open>Pawn::canPromote_\<close>, is written by no code of
  the sources and is left out. The grid \<^verbatim>\<open>board_\<close> is eight rows of eight squares,
  each a null pointer or a piece.
  The declared functions of \<^verbatim>\<open>Board\<close> that have a body in the header are
  \<^verbatim>\<open>getLastMove\<close>, \<^verbatim>\<open>hasLastMove\<close> and \<^verbatim>\<open>setLastMove\<close>.
\<close>

datatype PieceKind = Pawn | Rook | Knight | Bishop | Queen | King

record Piece =
  kind :: PieceKind
  color_p :: Color
  position_p :: Position
  hasMoved_p :: bool

definition setPosition :: "Position \<Rightarrow> Piece \<Rightarrow> Piece" where
  "setPosition newPosition x = x\<lparr>position_p := newPosition\<rparr>"

definition markAsMoved :: "Piece \<Rightarrow> Piece" where
  "markAsMoved x = x\<lparr>hasMoved_p := True\<rparr>"

record Board =
  board_m :: "Piece option list list"
  lastMove_m :: Move
  hasLastMove_m :: bool
  whiteKingSideCastle_m :: bool
  whiteQueenSideCastle_m :: bool
  blackKingSideCastle_m :: bool
  blackQueenSideCastle_m :: bool

definition getLastMove :: "Board \<Rightarrow> Move" where
  "getLastMove b =
     (if hasLastMove_m b then lastMove_m b
      else \<lparr>from' = \<lparr>row = -1, col = -1\<rparr>, to = \<lparr>row = -1, col = -1\<rparr>\<rparr>)"

definition hasLastMove :: "Board \<Rightarrow> bool" where
  "hasLastMove b = hasLastMove_m b"

definition setLastMove :: "Move \<Rightarrow> Board \<Rightarrow> Board" where
  "setLastMove m b = b\<lparr>lastMove_m := m, hasLastMove_m := True\<rparr>"

section \<open>Game.h: results, snapshots and the game record\<close>

text \<open>
  The two players of a game are owned through pointers that are set when the game is
  initialised; the record holds the players themselves. The stack of snapshots is a
  list with its top first.
\<close>

datatype GameResult =
    ONGOING | WHITE_WINS | BLACK_WINS | DRAW_STALEMATE | DRAW_INSUFFICIENT_MATERIAL
  | DRAW_THREEFOLD_REPETITION | DRAW_FIFTY_MOVE_RULE | DRAW_AGREEMENT
  | WHITE_TIMEOUT | BLACK_TIMEOUT

record GameState =
  board :: Board
  whitePlayer :: Player
  blackPlayer :: Player
  currentPlayer :: Color
  moveNumber :: int
  halfMoveClock :: int

record Game =
  board_g :: Board
  whitePlayer_g :: Player
  blackPlayer_g :: Player
  currentPlayer_g :: Color
  result_g :: GameResult
  moveNumber_g :: int
  halfMoveClock_g :: int
  moveHistory_g :: "Move list"
  gameStates_g :: "GameState list"
  gameStarted_g :: bool
  gameOver_g :: bool
  allowUndo_g :: bool
  timeLimitEnabled_g :: bool

definition isGameOver :: "Game \<Rightarrow> bool" where
  "isGameOver g = gameOver_g g"

definition getResult :: "Game \<Rightarrow> GameResult" where
  "getResult g = result_g g"

definition getBoard :: "Game \<Rightarrow> Board" where
  "getBoard g = board_g g"

definition getCurrentPlayer :: "Game \<Rightarrow> Color" where
  "getCurrentPlayer g = currentPlayer_g g"

definition setAllowUndo :: "bool \<Rightarrow> Game \<Rightarrow> Game" where
  "setAllowUndo allow g = g\<lparr>allowUndo_g := allow\<rparr>"

section \<open>The board's queries and raw updates\<close>

text \<open>
  The sources hold the headers only: every function of \<^verbatim>\<open>Board\<close>, \<^verbatim>\<open>Game\<close> and
  the piece classes that is declared without a body is defined here from the
  specification. Rows are numbered from White's side: White's pieces start on rows 0
  and 1 and its pawns move towards row 7.
\<close>

text \<open>Modelled from the spec: the enemy of a colour; the sources have no such function.\<close>

definition opposite :: "Color \<Rightarrow> Color" where
  "opposite c = (case c of WHITE \<Rightarrow> BLACK | BLACK \<Rightarrow> WHITE)"

text \<open>Modelled from the spec: the square a direction vector away from a square.\<close>

definition shift :: "Position \<Rightarrow> int \<Rightarrow> int \<Rightarrow> Position" where
  "shift p dr dc = \<lparr>row = row p + dr, col = col p + dc\<rparr>"

text \<open>Modelled from the spec: the 64 squares of the board, row by row.\<close>

definition allSquares :: "Position list" where
  "allSquares = concat (map (\<lambda>r. map (\<lambda>c. \<lparr>row = r, col = c\<rparr>) [0..7]) [0..7])"

text \<open>
  Modelled from the spec: the body of \<^verbatim>\<open>Board::getPieceAt\<close> is missing. It reads the
  piece at a coordinate. The spec calls a query outside the board a contract violation
  of the caller and says no more about it; here such a query finds no piece.
\<close>

definition getPieceAt :: "Board \<Rightarrow> Position \<Rightarrow> Piece option" where
  "getPieceAt b p =
     (if isValid p then board_m b ! nat (row p) ! nat (col p) else None)"

text \<open>
  Modelled from the spec: writing one square of the grid, the common part of
  \<^verbatim>\<open>Board::setPieceAt\<close> and \<^verbatim>\<open>Board::removePieceAt\<close>, whose bodies are missing.
  A write outside the board changes nothing.
\<close>

definition putSquare :: "Piece option \<Rightarrow> Position \<Rightarrow> Board \<Rightarrow> Board" where
  "putSquare x p b =
     (if isValid p
      then b\<lparr>board_m := (board_m b)[nat (row p) := (board_m b ! nat (row p))[nat (col p) := x]]\<rparr>
      else b)"

text \<open>
  Modelled from the spec: the body of \<^verbatim>\<open>Board::setPieceAt\<close> is missing. The piece is
  placed on the square and told its new position.
\<close>

definition setPieceAt :: "Piece \<Rightarrow> Position \<Rightarrow> Board \<Rightarrow> Board" where
  "setPieceAt x p b = putSquare (Some (setPosition p x)) p b"

text \<open>Modelled from the spec: the body of \<^verbatim>\<open>Board::removePieceAt\<close> is missing.\<close>

definition removePieceAt :: "Position \<Rightarrow> Board \<Rightarrow> Board" where
  "removePieceAt p b = putSquare None p b"

text \<open>
  Modelled from the spec: the body of \<^verbatim>\<open>Board::movePiece\<close> is missing. It is the raw
  relocation, with no legality check: the piece leaves its square, replaces whatever
  stands on the destination, and counts as moved. It fails when there is no piece to
  move or the destination is outside the board.
\<close>

definition movePiece :: "Position \<Rightarrow> Position \<Rightarrow> Board \<Rightarrow> bool \<times> Board" where
  "movePiece src dst b =
     (case getPieceAt b src of
        None \<Rightarrow> (False, b)
      | Some x \<Rightarrow>
          if isValid dst
          then (True, setPieceAt (markAsMoved x) dst (removePieceAt src b))
          else (False, b))"

text \<open>Modelled from the spec: the body of \<^verbatim>\<open>Board::isEmpty\<close> is missing.\<close>

definition isEmpty :: "Board \<Rightarrow> Position \<Rightarrow> bool" where
  "isEmpty b p = (getPieceAt b p = None)"

text \<open>Modelled from the spec: the body of \<^verbatim>\<open>Board::hasPieceOfColor\<close> is missing.\<close>

definition hasPieceOfColor :: "Board \<Rightarrow> Position \<Rightarrow> Color \<Rightarrow> bool" where
  "hasPieceOfColor b p c =
     (case getPieceAt b p of None \<Rightarrow> False | Some x \<Rightarrow> color_p x = c)"

text \<open>Modelled from the spec: the body of \<^verbatim>\<open>Board::getPiecesOfColor\<close> is missing.\<close>

definition getPiecesOfColor :: "Board \<Rightarrow> Color \<Rightarrow> Position list" where
  "getPiecesOfColor b c = filter (\<lambda>p. hasPieceOfColor b p c) allSquares"

text \<open>Modelled from the spec: whether a square holds the king of a colour.\<close>

definition isKingOf :: "Board \<Rightarrow> Color \<Rightarrow> Position \<Rightarrow> bool" where
  "isKingOf b c p =
     (case getPieceAt b p of None \<Rightarrow> False | Some x \<Rightarrow> kind x = King \<and> color_p x = c)"

text \<open>
  Modelled from the spec: the body of \<^verbatim>\<open>Board::findKing\<close> is missing. It locates a
  colour's king; on a board without that king it finds nothing.
\<close>

definition findKing :: "Board \<Rightarrow> Color \<Rightarrow> Position option" where
  "findKing b c = find (isKingOf b c) allSquares"

text \<open>
  Modelled from the spec: the body of \<^verbatim>\<open>Board::canCastle\<close> is missing. It reads the
  castling-rights flag of a colour and a side.
\<close>

definition Board_canCastle :: "Board \<Rightarrow> Color \<Rightarrow> bool \<Rightarrow> bool" where
  "Board_canCastle b c kingSide =
     (case c of
        WHITE \<Rightarrow> if kingSide then whiteKingSideCastle_m b else whiteQueenSideCastle_m b
      | BLACK \<Rightarrow> if kingSide then blackKingSideCastle_m b else blackQueenSideCastle_m b)"

section \<open>Piece variants: pseudo-legal destinations\<close>

text \<open>
  Modelled from the spec: the walk of a sliding piece along one direction (the bodies
  of the \<^verbatim>\<open>getLegalMoves\<close> overrides are missing). It stops at the board edge,
  stops before a piece of its own colour, and stops on an enemy piece, which it
  includes. The last argument bounds the number of steps; a walk on the board has at
  most seven.
\<close>

fun ray :: "Board \<Rightarrow> Color \<Rightarrow> Position \<Rightarrow> int \<times> int \<Rightarrow> nat \<Rightarrow> Position list" where
  "ray b c p d 0 = []"
| "ray b c p d (Suc n) =
     (let q = shift p (fst d) (snd d)
      in if \<not> isValid q then []
         else (case getPieceAt b q of
                 None \<Rightarrow> q # ray b c q d n
               | Some x \<Rightarrow> if color_p x = c then [] else [q]))"

text \<open>Modelled from the spec: a sliding piece walks each of its direction vectors.\<close>

definition slide :: "Board \<Rightarrow> Color \<Rightarrow> Position \<Rightarrow> (int \<times> int) list \<Rightarrow> Position list" where
  "slide b c p dirs = concat (map (\<lambda>d. ray b c p d 7) dirs)"

text \<open>Modelled from the spec: the direction vectors of the rook.\<close>

definition rookDirs :: "(int \<times> int) list" where
  "rookDirs = [(1, 0), (-1, 0), (0, 1), (0, -1)]"

text \<open>Modelled from the spec: the direction vectors of the bishop.\<close>

definition bishopDirs :: "(int \<times> int) list" where
  "bishopDirs = [(1, 1), (1, -1), (-1, 1), (-1, -1)]"

text \<open>Modelled from the spec: the fixed offsets of the knight.\<close>

definition knightOffsets :: "(int \<times> int) list" where
  "knightOffsets = [(2, 1), (2, -1), (-2, 1), (-2, -1), (1, 2), (1, -2), (-1, 2), (-1, -2)]"

text \<open>Modelled from the spec: the eight one-square offsets of the king.\<close>

definition kingOffsets :: "(int \<times> int) list" where
  "kingOffsets = rookDirs @ bishopDirs"

text \<open>
  Modelled from the spec: the destinations of a knight or a king, its offsets filtered
  to the board and to squares not held by its own colour.
\<close>

definition stepTargets :: "Board \<Rightarrow> Color \<Rightarrow> Position \<Rightarrow> (int \<times> int) list \<Rightarrow> Position list" where
  "stepTargets b c p offs =
     filter (\<lambda>q. isValid q \<and> \<not> hasPieceOfColor b q c)
       (map (\<lambda>d. shift p (fst d) (snd d)) offs)"

text \<open>
  Modelled from the spec: the body of \<^verbatim>\<open>Pawn::getForwardDirection\<close> is missing; its
  comment gives +1 for White and -1 for Black.
\<close>

definition getForwardDirection :: "Color \<Rightarrow> int" where
  "getForwardDirection c = (case c of WHITE \<Rightarrow> 1 | BLACK \<Rightarrow> -1)"

text \<open>Modelled from the spec: the starting rank of a colour's pawns.\<close>

definition startingRow :: "Color \<Rightarrow> int" where
  "startingRow c = (case c of WHITE \<Rightarrow> 1 | BLACK \<Rightarrow> 6)"

text \<open>Modelled from the spec: the farthest rank for a colour's pawns.\<close>

definition farthestRow :: "Color \<Rightarrow> int" where
  "farthestRow c = (case c of WHITE \<Rightarrow> 7 | BLACK \<Rightarrow> 0)"

text \<open>
  Modelled from the spec: the en-passant target for the capturing colour \<open>c\<close>, the
  square skipped by an enemy pawn that advanced two squares on the immediately
  preceding move. The sources keep the preceding move in the board and have no
  function of this name.
\<close>

definition enPassantTarget :: "Board \<Rightarrow> Color \<Rightarrow> Position option" where
  "enPassantTarget b c =
     (if \<not> hasLastMove b then None
      else let m = getLastMove b
           in (case getPieceAt b (to m) of
                 None \<Rightarrow> None
               | Some x \<Rightarrow>
                   if kind x = Pawn \<and> color_p x = opposite c \<and> col (from' m) = col (to m)
                      \<and> \<bar>row (to m) - row (from' m)\<bar> = 2
                   then Some \<lparr>row = (row (from' m) + row (to m)) div 2, col = col (to m)\<rparr>
                   else None))"

text \<open>
  Modelled from the spec: the destinations of a pawn (the body of
  \<^verbatim>\<open>Pawn::getLegalMoves\<close> is missing). One step forward needs an empty target; two
  steps are allowed from the starting rank to a pawn that has not moved, when the
  intermediate and the destination square are empty; a diagonal step is a capture, of
  an enemy piece or en passant.
\<close>

definition pawnTargets :: "Board \<Rightarrow> Position \<Rightarrow> Piece \<Rightarrow> Position list" where
  "pawnTargets b p x =
     (let c = color_p x;
          d = getForwardDirection c;
          one = shift p d 0;
          two = shift p (2 * d) 0
      in (if isValid one \<and> isEmpty b one then [one] else [])
         @ (if row p = startingRow c \<and> \<not> hasMoved_p x
               \<and> isValid two \<and> isEmpty b one \<and> isEmpty b two
            then [two] else [])
         @ filter (\<lambda>q. isValid q \<and>
                        (hasPieceOfColor b q (opposite c) \<or> enPassantTarget b c = Some q))
             [shift p d (-1), shift p d 1])"

text \<open>
  Modelled from the spec: the destinations a piece reaches by its movement pattern and
  the occupancy rules, castling apart; dispatch by kind stands for the overrides of
  \<^verbatim>\<open>Piece::getLegalMoves\<close>, whose bodies are missing.
\<close>

definition pieceTargets :: "Board \<Rightarrow> Position \<Rightarrow> Piece \<Rightarrow> Position list" where
  "pieceTargets b p x =
     (case kind x of
        Pawn \<Rightarrow> pawnTargets b p x
      | Rook \<Rightarrow> slide b (color_p x) p rookDirs
      | Knight \<Rightarrow> stepTargets b (color_p x) p knightOffsets
      | Bishop \<Rightarrow> slide b (color_p x) p bishopDirs
      | Queen \<Rightarrow> slide b (color_p x) p (rookDirs @ bishopDirs)
      | King \<Rightarrow> stepTargets b (color_p x) p kingOffsets)"

section \<open>Rules engine: attacks, check and castling\<close>

text \<open>
  Modelled from the spec: the squares a piece attacks, where it would capture an enemy
  piece. A pawn attacks the two squares diagonally ahead of it, whatever stands on
  them, and not the squares it pushes to; every other piece attacks its destinations.
  On a square that holds an enemy piece, such as the enemy king's, this is the spec's
  test, membership in the piece's pseudo-legal destinations.
\<close>

definition attackedSquares :: "Board \<Rightarrow> Position \<Rightarrow> Piece \<Rightarrow> Position list" where
  "attackedSquares b p x =
     (case kind x of
        Pawn \<Rightarrow>
          filter isValid
            [shift p (getForwardDirection (color_p x)) (-1),
             shift p (getForwardDirection (color_p x)) 1]
      | Rook \<Rightarrow> pieceTargets b p x
      | Knight \<Rightarrow> pieceTargets b p x
      | Bishop \<Rightarrow> pieceTargets b p x
      | Queen \<Rightarrow> pieceTargets b p x
      | King \<Rightarrow> pieceTargets b p x)"

text \<open>
  Modelled from the spec: whether the piece on square \<open>q\<close> is of the attacking colour
  and attacks the target.
\<close>

definition attacksFrom :: "Board \<Rightarrow> Position \<Rightarrow> Color \<Rightarrow> Position \<Rightarrow> bool" where
  "attacksFrom b target attackingColor q =
     (case getPieceAt b q of
        None \<Rightarrow> False
      | Some x \<Rightarrow> color_p x = attackingColor \<and> target \<in> set (attackedSquares b q x))"

text \<open>
  Modelled from the spec: the body of \<^verbatim>\<open>Board::isPositionUnderAttack\<close> is missing. A
  square is attacked when some piece of the attacking colour attacks it. Castling is
  left out of the scan: castling needs this very test, and a castling king lands on an
  empty square, so it never captures.
\<close>

definition isPositionUnderAttack :: "Board \<Rightarrow> Position \<Rightarrow> Color \<Rightarrow> bool" where
  "isPositionUnderAttack b target attackingColor =
     list_ex (attacksFrom b target attackingColor) allSquares"

text \<open>
  Modelled from the spec: the body of \<^verbatim>\<open>Board::isKingInCheck\<close> is missing. It locates
  the colour's king and asks whether an enemy piece reaches its square.
\<close>

definition isKingInCheck :: "Board \<Rightarrow> Color \<Rightarrow> bool" where
  "isKingInCheck b c =
     (case findKing b c of
        None \<Rightarrow> False
      | Some k \<Rightarrow> isPositionUnderAttack b k (opposite c))"

text \<open>
  Modelled from the spec: the body of \<^verbatim>\<open>King::getCastlingRookPosition\<close> is missing. The
  rook of a side stands in the king's row, in the last column for the king side and in
  the first for the queen side.
\<close>

definition getCastlingRookPosition :: "Position \<Rightarrow> bool \<Rightarrow> Position" where
  "getCastlingRookPosition p kingSide = \<lparr>row = row p, col = (if kingSide then 7 else 0)\<rparr>"

text \<open>Modelled from the spec: the column direction in which a castling king moves.\<close>

definition castlingStep :: "bool \<Rightarrow> int" where
  "castlingStep kingSide = (if kingSide then 1 else -1)"

text \<open>Modelled from the spec: the squares strictly between the king and the rook of a side.\<close>

definition squaresBetween :: "Position \<Rightarrow> bool \<Rightarrow> Position list" where
  "squaresBetween p kingSide =
     map (\<lambda>c. \<lparr>row = row p, col = c\<rparr>)
       (if kingSide then [col p + 1..6] else [1..col p - 1])"

text \<open>
  Modelled from the spec: the body of \<^verbatim>\<open>King::isCastlingPathValid\<close> is missing. The
  squares between king and rook are empty, and neither the square the king passes
  through nor the one it lands on is attacked by the opponent. The spec does not say
  how far the king goes; it goes two squares, as in chess.
\<close>

definition isCastlingPathValid :: "Board \<Rightarrow> Position \<Rightarrow> Color \<Rightarrow> bool \<Rightarrow> bool" where
  "isCastlingPathValid b p c kingSide =
     (list_all (isEmpty b) (squaresBetween p kingSide)
      \<and> list_all (\<lambda>q. isValid q \<and> \<not> isPositionUnderAttack b q (opposite c))
           [shift p 0 (castlingStep kingSide), shift p 0 (2 * castlingStep kingSide)])"

text \<open>
  Modelled from the spec: the body of \<^verbatim>\<open>King::canCastle\<close> is missing. Neither the king
  nor the rook of that side has moved (by the pieces' own flags and by the board's
  castling right), the king is not in check, and the path is valid.
\<close>

definition King_canCastle :: "Board \<Rightarrow> Position \<Rightarrow> Piece \<Rightarrow> bool \<Rightarrow> bool" where
  "King_canCastle b p x kingSide =
     (kind x = King \<and> \<not> hasMoved_p x \<and> Board_canCastle b (color_p x) kingSide
      \<and> (case getPieceAt b (getCastlingRookPosition p kingSide) of
            None \<Rightarrow> False
          | Some r \<Rightarrow> kind r = Rook \<and> color_p r = color_p x \<and> \<not> hasMoved_p r)
      \<and> \<not> isKingInCheck b (color_p x)
      \<and> isCastlingPathValid b p (color_p x) kingSide)"

text \<open>Modelled from the spec: the up to two castling destinations of a king.\<close>

definition castlingTargets :: "Board \<Rightarrow> Position \<Rightarrow> Piece \<Rightarrow> Position list" where
  "castlingTargets b p x =
     map (\<lambda>k. shift p 0 (2 * castlingStep k)) (filter (King_canCastle b p x) [True, False])"

text \<open>
  Modelled from the spec: a pawn that reaches the farthest rank needs a promotion
  choice in the move, with no default.
\<close>

definition needsPromotion :: "Piece \<Rightarrow> Position \<Rightarrow> bool" where
  "needsPromotion x q = (kind x = Pawn \<and> row q = farthestRow (color_p x))"

text \<open>
  Modelled from the spec: the pseudo-legal moves of the piece on a square (the bodies
  of the \<^verbatim>\<open>getLegalMoves\<close> overrides are missing): its destinations and, for a king,
  its castling moves. A \<^verbatim>\<open>Move\<close> of the sources holds two coordinates and nothing
  else, so no move carries the promotion choice the spec requires, and a pawn's step
  onto the farthest rank is not among the moves.
\<close>

definition Piece_getLegalMoves :: "Board \<Rightarrow> Position \<Rightarrow> Move list" where
  "Piece_getLegalMoves b p =
     (case getPieceAt b p of
        None \<Rightarrow> []
      | Some x \<Rightarrow>
          map (\<lambda>q. \<lparr>from' = p, to = q\<rparr>)
            (filter (\<lambda>q. \<not> needsPromotion x q) (pieceTargets b p x) @ castlingTargets b p x))"

text \<open>
  Modelled from the spec: the pseudo-legal moves of a colour, the union over that
  colour's pieces; the sources have no function of this name.
\<close>

definition getAllPseudoLegalMoves :: "Board \<Rightarrow> Color \<Rightarrow> Move list" where
  "getAllPseudoLegalMoves b c = concat (map (Piece_getLegalMoves b) (getPiecesOfColor b c))"

section \<open>Applying a move\<close>

text \<open>
  Modelled from the spec: a castling move is a king's move of two columns in its row;
  a \<^verbatim>\<open>Move\<close> has no flag for it.
\<close>

definition isCastleMove :: "Board \<Rightarrow> Move \<Rightarrow> bool" where
  "isCastleMove b m =
     (case getPieceAt b (from' m) of
        None \<Rightarrow> False
      | Some x \<Rightarrow> kind x = King \<and> row (to m) = row (from' m)
                   \<and> \<bar>col (to m) - col (from' m)\<bar> = 2)"

text \<open>
  Modelled from the spec: the body of \<^verbatim>\<open>Pawn::isEnPassant\<close> is missing. A pawn's
  diagonal step onto an empty square is an en-passant capture.
\<close>

definition isEnPassant :: "Board \<Rightarrow> Move \<Rightarrow> bool" where
  "isEnPassant b m =
     (case getPieceAt b (from' m) of
        None \<Rightarrow> False
      | Some x \<Rightarrow> kind x = Pawn \<and> col (to m) \<noteq> col (from' m) \<and> isEmpty b (to m))"

text \<open>Modelled from the spec: the home row of a colour's king and rooks.\<close>

definition homeRow :: "Color \<Rightarrow> int" where
  "homeRow c = (case c of WHITE \<Rightarrow> 0 | BLACK \<Rightarrow> 7)"

text \<open>Modelled from the spec: clearing one castling-rights flag.\<close>

definition revokeCastle :: "Color \<Rightarrow> bool \<Rightarrow> Board \<Rightarrow> Board" where
  "revokeCastle c kingSide b =
     (case c of
        WHITE \<Rightarrow> if kingSide then b\<lparr>whiteKingSideCastle_m := False\<rparr>
                  else b\<lparr>whiteQueenSideCastle_m := False\<rparr>
      | BLACK \<Rightarrow> if kingSide then b\<lparr>blackKingSideCastle_m := False\<rparr>
                  else b\<lparr>blackQueenSideCastle_m := False\<rparr>)"

text \<open>
  Modelled from the spec: a rook on its home square is about to leave it or to be
  captured there, which ends the castling right of its side.
\<close>

definition rookLeaves :: "Position \<Rightarrow> Board \<Rightarrow> Board" where
  "rookLeaves p b =
     (case getPieceAt b p of
        None \<Rightarrow> b
      | Some x \<Rightarrow>
          if kind x = Rook \<and> row p = homeRow (color_p x) \<and> col p = 7
          then revokeCastle (color_p x) True b
          else if kind x = Rook \<and> row p = homeRow (color_p x) \<and> col p = 0
          then revokeCastle (color_p x) False b
          else b)"

text \<open>
  Modelled from the spec: the body of \<^verbatim>\<open>Board::updateCastlingRights\<close> is missing. The
  rights are updated whenever a king or a rook moves or a rook is captured on its home
  square. It reads the board before the relocation.
\<close>

definition updateCastlingRights :: "Position \<Rightarrow> Position \<Rightarrow> Board \<Rightarrow> Board" where
  "updateCastlingRights src dst b =
     (let b1 = (case getPieceAt b src of
                  None \<Rightarrow> b
                | Some x \<Rightarrow>
                    if kind x = King
                    then revokeCastle (color_p x) True (revokeCastle (color_p x) False b)
                    else b)
      in rookLeaves dst (rookLeaves src b1))"

text \<open>
  Modelled from the spec: applying a move to a board: relocate the piece, capturing
  what stands on the destination, remove the pawn captured en passant, move the
  castling rook, and record the move as the last one. No promoted piece is ever
  substituted, since no move of this model reaches the farthest rank with a pawn.
\<close>

definition applyMove :: "Move \<Rightarrow> Board \<Rightarrow> Board" where
  "applyMove m b =
     (let b1 = updateCastlingRights (from' m) (to m) b;
          b2 = (if isEnPassant b m
                then removePieceAt \<lparr>row = row (from' m), col = col (to m)\<rparr> b1 else b1);
          b3 = snd (movePiece (from' m) (to m) b2);
          b4 = (if isCastleMove b m
                then let k = col (to m) > col (from' m)
                     in snd (movePiece (getCastlingRookPosition (from' m) k)
                               (shift (to m) 0 (- castlingStep k)) b3)
                else b3)
      in setLastMove m b4)"

text \<open>
  Modelled from the spec: the body of \<^verbatim>\<open>Board::makeTemporaryMove\<close> is missing. It
  returns the board after the move, a scratch copy; the board it is given stays as it
  is.
\<close>

definition makeTemporaryMove :: "Board \<Rightarrow> Move \<Rightarrow> Board" where
  "makeTemporaryMove b m = applyMove m b"

section \<open>Rules engine: legal moves\<close>

text \<open>
  Modelled from the spec: the body of \<^verbatim>\<open>Board::getAllLegalMoves\<close> is missing. The
  legal moves of a colour are its pseudo-legal moves filtered by the king-safety test:
  a move is discarded when, on the scratch copy it was applied to, the mover's king is
  in check.
\<close>

definition getAllLegalMoves :: "Board \<Rightarrow> Color \<Rightarrow> Move list" where
  "getAllLegalMoves b c =
     filter (\<lambda>m. \<not> isKingInCheck (makeTemporaryMove b m) c) (getAllPseudoLegalMoves b c)"

text \<open>
  Modelled from the spec: the body of \<^verbatim>\<open>Board::isMoveLegal\<close> is missing. The mover is
  the piece on the source square; without one the move is not legal. The move must be
  one of that piece's pseudo-legal moves and must pass the king-safety test.
\<close>

definition isMoveLegal :: "Board \<Rightarrow> Move \<Rightarrow> bool" where
  "isMoveLegal b m =
     (case getPieceAt b (from' m) of
        None \<Rightarrow> False
      | Some x \<Rightarrow> m \<in> set (Piece_getLegalMoves b (from' m))
                   \<and> \<not> isKingInCheck (makeTemporaryMove b m) (color_p x))"

section \<open>Game controller\<close>

text \<open>
  Modelled from the spec: the state InProgress of the controller; the sources keep the
  two flags and have no function of this name.
\<close>

definition inProgress :: "Game \<Rightarrow> bool" where
  "inProgress g = (gameStarted_g g \<and> \<not> gameOver_g g)"

text \<open>
  Modelled from the spec: a move is legal for the side to move when its source square
  holds a piece of that side and the board classifies the move as legal.
\<close>

definition legalForSideToMove :: "Game \<Rightarrow> Move \<Rightarrow> bool" where
  "legalForSideToMove g m =
     (hasPieceOfColor (board_g g) (from' m) (currentPlayer_g g) \<and> isMoveLegal (board_g g) m)"

text \<open>
  Modelled from the spec: the body of \<^verbatim>\<open>Game::saveGameState\<close> is missing. It pushes a
  snapshot of the board, both players, the side to move, the move number and the
  halfmove clock.
\<close>

definition saveGameState :: "Game \<Rightarrow> Game" where
  "saveGameState g =
     g\<lparr>gameStates_g :=
         \<lparr>board = board_g g, whitePlayer = whitePlayer_g g, blackPlayer = blackPlayer_g g,
          currentPlayer = currentPlayer_g g, moveNumber = moveNumber_g g,
          halfMoveClock = halfMoveClock_g g\<rparr> # gameStates_g g\<rparr>"

text \<open>Modelled from the spec: whether a move is a capture or a pawn move.\<close>

definition isCaptureOrPawnMove :: "Board \<Rightarrow> Move \<Rightarrow> bool" where
  "isCaptureOrPawnMove b m =
     (case getPieceAt b (from' m) of
        None \<Rightarrow> False
      | Some x \<Rightarrow> kind x = Pawn \<or> \<not> isEmpty b (to m))"

text \<open>
  Modelled from the spec: the body of \<^verbatim>\<open>Game::updateGameState\<close> is missing. The move
  is applied to the board; the halfmove clock is reset on a capture or a pawn move and
  incremented otherwise; the move number is incremented after Black's move; the move
  is appended to the history. The players' clocks and counters are kept by the caller.
\<close>

definition updateGameState :: "Move \<Rightarrow> Game \<Rightarrow> Game" where
  "updateGameState m g =
     g\<lparr>board_g := applyMove m (board_g g),
       halfMoveClock_g :=
         (if isCaptureOrPawnMove (board_g g) m then 0 else halfMoveClock_g g + 1),
       moveNumber_g :=
         (if currentPlayer_g g = BLACK then moveNumber_g g + 1 else moveNumber_g g),
       moveHistory_g := moveHistory_g g @ [m]\<rparr>"

text \<open>Modelled from the spec: the body of \<^verbatim>\<open>Game::switchPlayer\<close> is missing.\<close>

definition switchPlayer :: "Game \<Rightarrow> Game" where
  "switchPlayer g = g\<lparr>currentPlayer_g := opposite (currentPlayer_g g)\<rparr>"

text \<open>
  Modelled from the spec: the body of \<^verbatim>\<open>Game::isCheckmate\<close> is missing. The side to
  move has no legal move and is in check.
\<close>

definition isCheckmate :: "Game \<Rightarrow> bool" where
  "isCheckmate g =
     (getAllLegalMoves (board_g g) (currentPlayer_g g) = []
      \<and> isKingInCheck (board_g g) (currentPlayer_g g))"

text \<open>
  Modelled from the spec: the body of \<^verbatim>\<open>Game::isStalemate\<close> is missing. The side to
  move has no legal move and is not in check.
\<close>

definition isStalemate :: "Game \<Rightarrow> bool" where
  "isStalemate g =
     (getAllLegalMoves (board_g g) (currentPlayer_g g) = []
      \<and> \<not> isKingInCheck (board_g g) (currentPlayer_g g))"

text \<open>
  Modelled from the spec: the body of \<^verbatim>\<open>Game::isInsufficientMaterial\<close> is missing. The
  spec names one such position, the one with only the two kings; here a board with no
  piece but kings.
\<close>

definition isInsufficientMaterial :: "Game \<Rightarrow> bool" where
  "isInsufficientMaterial g =
     list_all (\<lambda>p. case getPieceAt (board_g g) p of None \<Rightarrow> True | Some x \<Rightarrow> kind x = King)
       allSquares"

text \<open>
  Modelled from the spec: the body of \<^verbatim>\<open>Game::isFiftyMoveRule\<close> is missing. The
  transition this model follows draws at a halfmove clock of 100; the spec's list of
  testable properties speaks of 50 half-moves instead. No theorem below depends on the
  number.
\<close>

definition isFiftyMoveRule :: "Game \<Rightarrow> bool" where
  "isFiftyMoveRule g = (halfMoveClock_g g \<ge> 100)"

text \<open>
  Modelled from the spec: what two positions must share to count as the same position:
  the placement, the side to move, the four castling rights and the en-passant target.
\<close>

type_synonym PositionKey =
  "(PieceKind \<times> Color) option list list \<times> Color \<times> bool list \<times> Position option"

text \<open>Modelled from the spec: the key of a board with a side to move.\<close>

definition positionKey :: "Board \<Rightarrow> Color \<Rightarrow> PositionKey" where
  "positionKey b c =
     (map (map (map_option (\<lambda>x. (kind x, color_p x)))) (board_m b),
      c,
      [Board_canCastle b WHITE True, Board_canCastle b WHITE False,
       Board_canCastle b BLACK True, Board_canCastle b BLACK False],
      enPassantTarget b c)"

text \<open>
  Modelled from the spec: the body of \<^verbatim>\<open>Game::isThreefoldRepetition\<close> is missing. The
  current position has occurred three times across the history, which is the current
  position and the snapshots of the earlier ones.
\<close>

definition isThreefoldRepetition :: "Game \<Rightarrow> bool" where
  "isThreefoldRepetition g =
     (let now = positionKey (board_g g) (currentPlayer_g g);
          earlier = map (\<lambda>s. positionKey (board s) (currentPlayer s)) (gameStates_g g)
      in length (filter (\<lambda>k. k = now) (now # earlier)) \<ge> 3)"

text \<open>Modelled from the spec: entering a terminal state with a result.\<close>

definition endWith :: "GameResult \<Rightarrow> Game \<Rightarrow> Game" where
  "endWith r g = g\<lparr>result_g := r, gameOver_g := True\<rparr>"

text \<open>
  Modelled from the spec: the body of \<^verbatim>\<open>Game::checkGameEnd\<close> is missing. The terminal
  conditions are evaluated for the side to move in the order checkmate, stalemate,
  insufficient material, fifty-move rule, threefold repetition; otherwise the game
  stays in progress. A checkmate is won by the other side.
\<close>

definition checkGameEnd :: "Game \<Rightarrow> Game" where
  "checkGameEnd g =
     (if isCheckmate g
      then endWith (if currentPlayer_g g = WHITE then BLACK_WINS else WHITE_WINS) g
      else if isStalemate g then endWith DRAW_STALEMATE g
      else if isInsufficientMaterial g then endWith DRAW_INSUFFICIENT_MATERIAL g
      else if isFiftyMoveRule g then endWith DRAW_FIFTY_MOVE_RULE g
      else if isThreefoldRepetition g then endWith DRAW_THREEFOLD_REPETITION g
      else g)"

text \<open>
  Modelled from the spec: the body of \<^verbatim>\<open>Game::makeMove\<close> is missing. Outside the
  state InProgress, and for a move that is not legal for the side to move, it fails
  and changes nothing. Otherwise a snapshot is pushed before the move is applied, the
  move is applied with its bookkeeping, the side to move is switched and the terminal
  conditions are evaluated. The result is the success flag and the game after the
  call.
\<close>

definition makeMove :: "Move \<Rightarrow> Game \<Rightarrow> bool \<times> Game" where
  "makeMove m g =
     (if \<not> inProgress g then (False, g)
      else if \<not> legalForSideToMove g m then (False, g)
      else (True, checkGameEnd (switchPlayer (updateGameState m (saveGameState g)))))"

text \<open>
  Modelled from the spec: the body of \<^verbatim>\<open>Game::undoLastMove\<close> is missing. It pops the
  last snapshot and restores it; it fails, changing nothing, when the stack is empty
  or undo is disabled.
\<close>

definition undoLastMove :: "Game \<Rightarrow> bool \<times> Game" where
  "undoLastMove g =
     (if \<not> allowUndo_g g then (False, g)
      else (case gameStates_g g of
              [] \<Rightarrow> (False, g)
            | s # rest \<Rightarrow>
                (True, g\<lparr>board_g := board s, whitePlayer_g := whitePlayer s,
                         blackPlayer_g := blackPlayer s, currentPlayer_g := currentPlayer s,
                         moveNumber_g := moveNumber s, halfMoveClock_g := halfMoveClock s,
                         gameStates_g := rest\<rparr>)))"

section \<open>Example values\<close>

text \<open>A board with no piece and no recorded move.\<close>

definition emptyBoard :: Board where
  "emptyBoard =
     \<lparr>board_m = replicate 8 (replicate 8 None),
      lastMove_m = \<lparr>from' = \<lparr>row = 0, col = 0\<rparr>, to = \<lparr>row = 0, col = 0\<rparr>\<rparr>,
      hasLastMove_m = False,
      whiteKingSideCastle_m = True, whiteQueenSideCastle_m = True,
      blackKingSideCastle_m = True, blackQueenSideCastle_m = True\<rparr>"

text \<open>A piece that has not moved, as a square of the grid.\<close>

definition mkPiece :: "PieceKind \<Rightarrow> Color \<Rightarrow> int \<Rightarrow> int \<Rightarrow> Piece option" where
  "mkPiece k c r f =
     Some \<lparr>kind = k, color_p = c, position_p = \<lparr>row = r, col = f\<rparr>, hasMoved_p = False\<rparr>"

text \<open>The row of a colour's pieces at the start of a game.\<close>

definition backRank :: "Color \<Rightarrow> int \<Rightarrow> Piece option list" where
  "backRank c r =
     map (\<lambda>(k, f). mkPiece k c r f)
       (zip [Rook, Knight, Bishop, Queen, King, Bishop, Knight, Rook] [0..7])"

text \<open>The row of a colour's pawns at the start of a game.\<close>

definition pawnRank :: "Color \<Rightarrow> int \<Rightarrow> Piece option list" where
  "pawnRank c r = map (\<lambda>f. mkPiece Pawn c r f) [0..7]"

text \<open>
  Modelled from the spec: the body of \<^verbatim>\<open>Board::setupInitialPosition\<close> is missing. It
  sets up the standard starting position, with no last move and all castling rights.
\<close>

definition setupInitialPosition :: "Board \<Rightarrow> Board" where
  "setupInitialPosition b =
     b\<lparr>board_m := [backRank WHITE 0, pawnRank WHITE 1] @ replicate 4 (replicate 8 None)
                   @ [pawnRank BLACK 6, backRank BLACK 7],
       hasLastMove_m := False,
       whiteKingSideCastle_m := True, whiteQueenSideCastle_m := True,
       blackKingSideCastle_m := True, blackQueenSideCastle_m := True\<rparr>"

text \<open>The move from row \<open>a\<close>, column \<open>b\<close> to row \<open>c\<close>, column \<open>d\<close>.\<close>

definition mv :: "int \<Rightarrow> int \<Rightarrow> int \<Rightarrow> int \<Rightarrow> Move" where
  "mv a b c d = \<lparr>from' = \<lparr>row = a, col = b\<rparr>, to = \<lparr>row = c, col = d\<rparr>\<rparr>"

text \<open>A player with the default clock of 1800 seconds.\<close>

definition examplePlayer :: "string \<Rightarrow> Color \<Rightarrow> Player" where
  "examplePlayer n c =
     \<lparr>name_m = n, color_m = c, timeLeft_m = 1800, movesPlayed_m = 0, isHuman_m = True,
      capturedPieces_m = 0, checksGiven_m = 0, isInCheck_m = False\<rparr>"

text \<open>A player whose clock stands at the least count of seconds, minus 2 to the 63.\<close>

definition drainedPlayer :: Player where
  "drainedPlayer = (examplePlayer ''White'' WHITE)\<lparr>timeLeft_m := - (2 ^ 63)\<rparr>"

text \<open>A player whose clock stands at the greatest count of seconds, 2 to the 63 minus 1.\<close>

definition fullPlayer :: Player where
  "fullPlayer = (examplePlayer ''White'' WHITE)\<lparr>timeLeft_m := 2 ^ 63 - 1\<rparr>"

text \<open>
  A game in progress at the starting position, White to move, with undo allowed or
  not.
\<close>

definition exampleGame :: "bool \<Rightarrow> Game" where
  "exampleGame allow =
     \<lparr>board_g = setupInitialPosition emptyBoard,
      whitePlayer_g = examplePlayer ''White'' WHITE,
      blackPlayer_g = examplePlayer ''Black'' BLACK,
      currentPlayer_g = WHITE, result_g = ONGOING, moveNumber_g = 1, halfMoveClock_g = 0,
      moveHistory_g = [], gameStates_g = [], gameStarted_g = True, gameOver_g = False,
      allowUndo_g = allow, timeLimitEnabled_g = False\<rparr>"

text \<open>Placing an unmoved piece of a kind and colour on a row and column of a board.\<close>

definition place :: "PieceKind \<times> Color \<times> int \<times> int \<Rightarrow> Board \<Rightarrow> Board" where
  "place e b =
     (case e of (k, c, r, f) \<Rightarrow> putSquare (mkPiece k c r f) \<lparr>row = r, col = f\<rparr> b)"

text \<open>The board that holds the listed pieces and nothing else.\<close>

definition boardWith :: "(PieceKind \<times> Color \<times> int \<times> int) list \<Rightarrow> Board" where
  "boardWith es = fold place es emptyBoard"

text \<open>White's king and both rooks on their home squares, against a lone king.\<close>

definition castleBoard :: Board where
  "castleBoard =
     boardWith [(King, WHITE, 0, 4), (Rook, WHITE, 0, 7), (Rook, WHITE, 0, 0),
                (King, BLACK, 7, 4)]"

text \<open>
  A white pawn on row 4, column 4, just after the black pawn beside it advanced two
  squares from row 6 to row 4 in column 3.
\<close>

definition enPassantBoard :: Board where
  "enPassantBoard =
     applyMove (mv 6 3 4 3)
       (boardWith [(King, WHITE, 0, 4), (King, BLACK, 7, 4), (Pawn, WHITE, 4, 4),
                   (Pawn, BLACK, 6, 3)])"

text \<open>A game in progress with only the two kings, White to move.\<close>

definition twoKingsGame :: Game where
  "twoKingsGame =
     (exampleGame True)\<lparr>board_g := boardWith [(King, WHITE, 0, 4), (King, BLACK, 7, 4)]\<rparr>"

text \<open>The game after an accepted move, before the terminal conditions are evaluated.\<close>

definition advance :: "Move \<Rightarrow> Game \<Rightarrow> Game" where
  "advance m g = switchPlayer (updateGameState m (saveGameState g))"

text \<open>
  The positions of the shortest mate: White's pawn from row 1 to 2 in column 5, Black's
  pawn from row 6 to 4 in column 4, White's pawn from row 1 to 3 in column 6, Black's
  queen from row 7, column 3 to row 3, column 7.
\<close>

definition afterF3 :: Game where
  "afterF3 = advance (mv 1 5 2 5) (exampleGame True)"

definition afterE5 :: Game where
  "afterE5 = advance (mv 6 4 4 4) afterF3"

definition afterG4 :: Game where
  "afterG4 = advance (mv 1 6 3 6) afterE5"

definition afterQh4 :: Game where
  "afterQh4 = advance (mv 7 3 3 7) afterG4"

section \<open>The value types\<close>

text \<open>
  C8. For every position, \<^verbatim>\<open>isValid()\<close> is true exactly when both the row and the
  column lie in the half-open range from 0 to 8.
\<close>

theorem isValid_iff_in_range:
  "isValid p \<longleftrightarrow> (0 \<le> row p \<and> row p < 8) \<and> (0 \<le> col p \<and> col p < 8)"
  by (auto simp: isValid_def)

lemma sint_seconds: "sint (scast (s :: 32 word) :: 64 word) = sint s"
  by (rule sint_up_scast) (simp add: is_up)

lemma sint_sub_in_range:
  fixes t :: "64 word" and s :: "32 word"
  assumes "- (2 ^ 63) \<le> sint t - sint s" and "sint t - sint s < 2 ^ 63"
  shows "sint (t - scast s) = sint t - sint s"
proof -
  have "sint (t - scast s) = signed_take_bit 63 (sint t - sint (scast s :: 64 word))"
    by (simp add: sint_word_ariths)
  also have "\<dots> = signed_take_bit 63 (sint t - sint s)"
    by (simp add: sint_seconds)
  also have "\<dots> = sint t - sint s"
    using assms by (intro signed_take_bit_int_eq_self) simp_all
  finally show ?thesis .
qed

lemma addTime_repeated:
  "timeLeft_m ((addTime s ^^ n) p) = timeLeft_m p + of_nat n * scast s"
  by (induction n) (simp_all add: addTime_def algebra_simps)

text \<open>
  The least count is a clock the program can reach. From a clock set to zero, adding
  the least \<^verbatim>\<open>int\<close> up to 4294967296 times leaves exactly the sum of what was
  added, so no addition on the way overflows; the last one reaches the least count.
\<close>

lemma clock_counts_down_exactly:
  assumes "n \<le> 2 ^ 32"
  shows "sint (timeLeft_m ((addTime (- (2 ^ 31)) ^^ n) (setTimeLeft 0 p))) = - (int n * 2 ^ 31)"
proof -
  have "timeLeft_m ((addTime (- (2 ^ 31)) ^^ n) (setTimeLeft 0 p))
      = (word_of_int (- (int n * 2 ^ 31)) :: 64 word)"
    by (simp add: addTime_repeated setTimeLeft_def)
  then have "sint (timeLeft_m ((addTime (- (2 ^ 31)) ^^ n) (setTimeLeft 0 p)))
      = signed_take_bit 63 (- (int n * 2 ^ 31))"
    by (simp only: sint_sbintrunc') simp
  moreover have "int n \<le> 2 ^ 32"
    using assms by (metis of_nat_le_iff of_nat_numeral of_nat_power)
  then have "- (2 ^ 63) \<le> - (int n * 2 ^ 31)" "- (int n * 2 ^ 31) < 2 ^ 63"
    by simp_all
  then have "signed_take_bit 63 (- (int n * 2 ^ 31)) = - (int n * 2 ^ 31)"
    by (intro signed_take_bit_int_eq_self) simp_all
  ultimately show ?thesis
    by simp
qed

lemma least_count_is_reachable:
  "timeLeft_m ((addTime (- (2 ^ 31)) ^^ (2 ^ 32)) (setTimeLeft 0 p)) = - (2 ^ 63)"
  by (simp add: addTime_repeated setTimeLeft_def)

text \<open>
  C9, as the claim states it: for every player and every \<open>s\<close>, the remaining time
  after \<^verbatim>\<open>subtractTime(s)\<close> is the previous remaining time minus \<open>s\<close>, clamped below
  at zero. It is not at the ends of the 64-bit range. On the clock at the least count,
  \<^verbatim>\<open>subtractTime(1)\<close> wraps round to the greatest count, which is not negative and is
  kept, where the claim gives zero; on the clock at the greatest count,
  \<^verbatim>\<open>subtractTime(-1)\<close> wraps round to the least count and is clamped to zero, where
  the claim gives 2 to the 63.
\<close>

theorem subtractTime_overflow_counterexample:
  "sint (getTimeLeft drainedPlayer) = - (2 ^ 63)
   \<and> sint (getTimeLeft (subtractTime 1 drainedPlayer)) = 2 ^ 63 - 1
   \<and> sint (getTimeLeft (subtractTime 1 drainedPlayer))
       \<noteq> max 0 (sint (getTimeLeft drainedPlayer) - sint (1 :: 32 word))
   \<and> sint (getTimeLeft fullPlayer) = 2 ^ 63 - 1
   \<and> sint (getTimeLeft (subtractTime (- 1) fullPlayer)) = 0
   \<and> sint (getTimeLeft (subtractTime (- 1) fullPlayer))
       \<noteq> max 0 (sint (getTimeLeft fullPlayer) - sint (- 1 :: 32 word))"
  by (simp add: getTimeLeft_def subtractTime_def drainedPlayer_def fullPlayer_def Let_def
        word_sless_alt)

text \<open>
  C9, amended: for every player and every \<open>s\<close> for which the previous remaining time
  minus \<open>s\<close> lies in the range of the 64-bit signed count of seconds, the remaining
  time after \<^verbatim>\<open>subtractTime(s)\<close> is the previous remaining time minus \<open>s\<close>, clamped
  below at zero. For every player and every \<open>s\<close>, in that range or not, the remaining
  time is never negative after the call, and \<^verbatim>\<open>hasTimeLeft()\<close> is true exactly when
  the remaining time is strictly positive.
\<close>

theorem subtractTime_clamps_within_range:
  "(- (2 ^ 63) \<le> sint (getTimeLeft p) - sint s \<and> sint (getTimeLeft p) - sint s < 2 ^ 63
      \<longrightarrow> sint (getTimeLeft (subtractTime s p)) = max 0 (sint (getTimeLeft p) - sint s))
   \<and> 0 \<le> sint (getTimeLeft (subtractTime s p))
   \<and> (hasTimeLeft q \<longleftrightarrow> 0 < sint (getTimeLeft q))"
proof (intro conjI impI)
  assume "- (2 ^ 63) \<le> sint (getTimeLeft p) - sint s \<and> sint (getTimeLeft p) - sint s < 2 ^ 63"
  then have "sint (timeLeft_m p - scast s) = sint (timeLeft_m p) - sint s"
    by (simp add: getTimeLeft_def sint_sub_in_range)
  then show "sint (getTimeLeft (subtractTime s p)) = max 0 (sint (getTimeLeft p) - sint s)"
    by (simp add: getTimeLeft_def subtractTime_def Let_def word_sless_alt)
next
  show "0 \<le> sint (getTimeLeft (subtractTime s p))"
    by (simp add: getTimeLeft_def subtractTime_def Let_def word_sless_alt)
next
  show "hasTimeLeft q \<longleftrightarrow> 0 < sint (getTimeLeft q)"
    by (simp add: hasTimeLeft_def getTimeLeft_def word_sless_alt)
qed

theorem subtractTime_clamps_within_range_witness:
  "(- (2 ^ 63) \<le> sint (getTimeLeft (examplePlayer ''White'' WHITE)) - sint (2000 :: 32 word)
    \<and> sint (getTimeLeft (examplePlayer ''White'' WHITE)) - sint (2000 :: 32 word) < 2 ^ 63)
   \<and> sint (getTimeLeft (subtractTime 2000 (examplePlayer ''White'' WHITE))) = 0
   \<and> sint (getTimeLeft (subtractTime 30 (examplePlayer ''White'' WHITE))) = 1770"
proof -
  have t: "sint (getTimeLeft (examplePlayer ''White'' WHITE)) = 1800"
    by (simp add: getTimeLeft_def examplePlayer_def)
  have r1: "- (2 ^ 63) \<le> sint (getTimeLeft (examplePlayer ''White'' WHITE)) - sint (2000 :: 32 word)
    \<and> sint (getTimeLeft (examplePlayer ''White'' WHITE)) - sint (2000 :: 32 word) < 2 ^ 63"
    by (simp add: t)
  have r2: "- (2 ^ 63) \<le> sint (getTimeLeft (examplePlayer ''White'' WHITE)) - sint (30 :: 32 word)
    \<and> sint (getTimeLeft (examplePlayer ''White'' WHITE)) - sint (30 :: 32 word) < 2 ^ 63"
    by (simp add: t)
  from r1 subtractTime_clamps_within_range [of "examplePlayer ''White'' WHITE" 2000]
  have a: "sint (getTimeLeft (subtractTime 2000 (examplePlayer ''White'' WHITE))) = 0"
    by (simp add: t)
  from r2 subtractTime_clamps_within_range [of "examplePlayer ''White'' WHITE" 30]
  have b: "sint (getTimeLeft (subtractTime 30 (examplePlayer ''White'' WHITE))) = 1770"
    by (simp add: t)
  from r1 a b show ?thesis by blast
qed

text \<open>
  C10. On a board with no recorded move, \<^verbatim>\<open>getLastMove()\<close> returns the move from
  \<open>(-1, -1)\<close> to \<open>(-1, -1)\<close>, and neither endpoint of it is a valid position.
\<close>

theorem getLastMove_without_last_move:
  assumes "\<not> hasLastMove b"
  shows "getLastMove b = \<lparr>from' = \<lparr>row = -1, col = -1\<rparr>, to = \<lparr>row = -1, col = -1\<rparr>\<rparr>
    \<and> \<not> isValid (from' (getLastMove b))
    \<and> \<not> isValid (to (getLastMove b))"
  using assms by (simp add: getLastMove_def hasLastMove_def isValid_def)

theorem getLastMove_without_last_move_witness:
  "\<not> hasLastMove emptyBoard
   \<and> getLastMove emptyBoard = \<lparr>from' = \<lparr>row = -1, col = -1\<rparr>, to = \<lparr>row = -1, col = -1\<rparr>\<rparr>
   \<and> \<not> isValid (from' (getLastMove emptyBoard))
   \<and> \<not> isValid (to (getLastMove emptyBoard))"
proof -
  have h: "\<not> hasLastMove emptyBoard"
    by (simp add: hasLastMove_def emptyBoard_def)
  show ?thesis
    using h getLastMove_without_last_move [OF h] by blast
qed

text \<open>
  A move is its source and its destination and nothing else. Nothing read off a move,
  a promotion-piece kind or a flag, tells apart two moves between the same two
  squares.
\<close>

lemma Move_has_no_promotion_or_flag:
  "\<not> (\<exists>(promotion :: Move \<Rightarrow> PieceKind option) m1 m2.
         from' m1 = from' m2 \<and> to m1 = to m2 \<and> promotion m1 \<noteq> promotion m2)
   \<and> \<not> (\<exists>(flag :: Move \<Rightarrow> bool) m1 m2.
         from' m1 = from' m2 \<and> to m1 = to m2 \<and> flag m1 \<noteq> flag m2)"
proof -
  have same: "m1 = m2" if "from' m1 = from' m2" "to m1 = to m2" for m1 m2 :: Move
    using that by simp
  show ?thesis
    using same by metis
qed

lemma Move_is_from_and_to:
  "(m1 = m2 \<longleftrightarrow> from' m1 = from' m2 \<and> to m1 = to m2)
   \<and> (Move_eq m1 m2 \<longleftrightarrow> m1 = m2)
   \<and> m = \<lparr>from' = from' m, to = to m\<rparr>"
  by (auto simp: Move_eq_def Position_eq_def)

section \<open>Legal moves and king safety\<close>

text \<open>
  On a square held by an enemy of the piece, the squares the piece attacks and its
  pseudo-legal destinations agree: for the mover's king, the test for check is the
  spec's, that an enemy piece's pseudo-legal destinations include the king's square.
\<close>

lemma attackedSquares_on_enemy_piece:
  assumes "hasPieceOfColor b t (opposite (color_p x))"
  shows "t \<in> set (attackedSquares b q x) \<longleftrightarrow> t \<in> set (pieceTargets b q x)"
proof (cases "kind x")
  case Pawn
  have occupied: "\<not> isEmpty b t"
    using assms by (auto simp: isEmpty_def hasPieceOfColor_def split: option.splits)
  show ?thesis
    using assms occupied
    by (auto simp: attackedSquares_def pieceTargets_def pawnTargets_def Pawn Let_def)
qed (simp_all add: attackedSquares_def)

lemma set_allSquares: "p \<in> set allSquares \<longleftrightarrow> isValid p"
proof -
  have e: "p = \<lparr>row = row p, col = col p\<rparr>" by simp
  have "p \<in> set allSquares \<longleftrightarrow> (\<exists>r\<in>set [0..7]. \<exists>c\<in>set [0..7]. p = \<lparr>row = r, col = c\<rparr>)"
    unfolding allSquares_def set_concat set_map image_image by blast
  also have "\<dots> \<longleftrightarrow> row p \<in> set [0..7] \<and> col p \<in> set [0..7]"
    using e by (metis Position.select_convs(1) Position.select_convs(2))
  also have "\<dots> \<longleftrightarrow> isValid p"
    unfolding set_upto isValid_def by auto
  finally show ?thesis .
qed

lemma hasPieceOfColor_valid: "hasPieceOfColor b p c \<Longrightarrow> isValid p"
  by (auto simp: hasPieceOfColor_def getPieceAt_def split: if_splits)

lemma set_getPiecesOfColor: "p \<in> set (getPiecesOfColor b c) \<longleftrightarrow> hasPieceOfColor b p c"
  by (auto simp: getPiecesOfColor_def set_allSquares dest: hasPieceOfColor_valid)

lemma Piece_getLegalMoves_from: "m \<in> set (Piece_getLegalMoves b p) \<Longrightarrow> from' m = p"
  by (auto simp: Piece_getLegalMoves_def split: option.splits)

lemma set_getAllPseudoLegalMoves:
  "m \<in> set (getAllPseudoLegalMoves b c) \<longleftrightarrow>
     hasPieceOfColor b (from' m) c \<and> m \<in> set (Piece_getLegalMoves b (from' m))"
  by (auto simp: getAllPseudoLegalMoves_def set_getPiecesOfColor dest: Piece_getLegalMoves_from)

lemma set_getAllLegalMoves:
  "m \<in> set (getAllLegalMoves b c) \<longleftrightarrow>
     m \<in> set (getAllPseudoLegalMoves b c) \<and> \<not> isKingInCheck (makeTemporaryMove b m) c"
  by (simp add: getAllLegalMoves_def)

lemma isMoveLegal_iff:
  "isMoveLegal b m \<and> hasPieceOfColor b (from' m) c \<longleftrightarrow> m \<in> set (getAllLegalMoves b c)"
  by (auto simp: isMoveLegal_def set_getAllLegalMoves set_getAllPseudoLegalMoves
        hasPieceOfColor_def split: option.splits)

lemma e2e4_is_legal: "isMoveLegal (setupInitialPosition emptyBoard) (mv 1 4 3 4)"
  by code_simp

lemma e2_is_white:
  "hasPieceOfColor (setupInitialPosition emptyBoard) (from' (mv 1 4 3 4)) WHITE"
  by code_simp

text \<open>
  C1. The legal moves of a colour are its pseudo-legal moves after which, on the
  scratch copy the move was applied to, the mover's king is not in check; the two
  classifications of the engine, \<^verbatim>\<open>isMoveLegal\<close> for the piece on the source square and
  \<^verbatim>\<open>getAllLegalMoves\<close> for its colour, agree; and applying a legal move never leaves
  the mover's own king in check.
\<close>

theorem legal_move_keeps_own_king_safe:
  "(m \<in> set (getAllLegalMoves b c) \<longleftrightarrow>
      m \<in> set (getAllPseudoLegalMoves b c) \<and> \<not> isKingInCheck (makeTemporaryMove b m) c)
   \<and> (isMoveLegal b m \<and> hasPieceOfColor b (from' m) c \<longleftrightarrow> m \<in> set (getAllLegalMoves b c))
   \<and> (m \<in> set (getAllLegalMoves b c) \<longrightarrow> \<not> isKingInCheck (applyMove m b) c)"
proof -
  have filtered: "m \<in> set (getAllLegalMoves b c) \<longleftrightarrow>
      m \<in> set (getAllPseudoLegalMoves b c) \<and> \<not> isKingInCheck (makeTemporaryMove b m) c"
    by (rule set_getAllLegalMoves)
  have agree: "isMoveLegal b m \<and> hasPieceOfColor b (from' m) c \<longleftrightarrow>
      m \<in> set (getAllLegalMoves b c)"
    by (rule isMoveLegal_iff)
  have safe: "m \<in> set (getAllLegalMoves b c) \<longrightarrow> \<not> isKingInCheck (applyMove m b) c"
    using filtered by (simp add: makeTemporaryMove_def)
  from filtered agree safe show ?thesis by blast
qed

theorem legal_move_keeps_own_king_safe_witness:
  "isMoveLegal (setupInitialPosition emptyBoard) (mv 1 4 3 4)
   \<and> mv 1 4 3 4 \<in> set (getAllLegalMoves (setupInitialPosition emptyBoard) WHITE)
   \<and> mv 1 4 3 4 \<in> set (getAllPseudoLegalMoves (setupInitialPosition emptyBoard) WHITE)
   \<and> \<not> isKingInCheck (applyMove (mv 1 4 3 4) (setupInitialPosition emptyBoard)) WHITE"
proof -
  note t = legal_move_keeps_own_king_safe
    [of "mv 1 4 3 4" "setupInitialPosition emptyBoard" WHITE]
  from t e2e4_is_legal e2_is_white
  have mem: "mv 1 4 3 4 \<in> set (getAllLegalMoves (setupInitialPosition emptyBoard) WHITE)"
    by blast
  with t e2e4_is_legal show ?thesis by blast
qed

section \<open>Submitting and undoing a move\<close>

lemma checkGameEnd_keeps:
  "board_g (checkGameEnd g) = board_g g"
  "currentPlayer_g (checkGameEnd g) = currentPlayer_g g"
  "gameStates_g (checkGameEnd g) = gameStates_g g"
  "allowUndo_g (checkGameEnd g) = allowUndo_g g"
  by (simp_all add: checkGameEnd_def endWith_def)

lemma makeMove_accepts:
  assumes "inProgress g" "legalForSideToMove g m"
  shows "makeMove m g = (True, checkGameEnd (switchPlayer (updateGameState m (saveGameState g))))"
  using assms by (simp add: makeMove_def)

lemma after_makeMove:
  assumes "inProgress g" "legalForSideToMove g m"
  shows "board_g (snd (makeMove m g)) = applyMove m (board_g g)"
    and "allowUndo_g (snd (makeMove m g)) = allowUndo_g g"
    and "gameStates_g (snd (makeMove m g)) =
           \<lparr>board = board_g g, whitePlayer = whitePlayer_g g, blackPlayer = blackPlayer_g g,
            currentPlayer = currentPlayer_g g, moveNumber = moveNumber_g g,
            halfMoveClock = halfMoveClock_g g\<rparr> # gameStates_g g"
  using assms
  by (simp_all add: makeMove_accepts checkGameEnd_keeps switchPlayer_def updateGameState_def
        saveGameState_def)

lemma needsPromotion_not_pseudo_legal:
  assumes "getPieceAt b (from' m) = Some x" and "needsPromotion x (to m)"
  shows "m \<notin> set (Piece_getLegalMoves b (from' m))"
proof
  assume "m \<in> set (Piece_getLegalMoves b (from' m))"
  then obtain q where q: "m = \<lparr>from' = from' m, to = q\<rparr>"
    and mem: "q \<in> set (filter (\<lambda>q. \<not> needsPromotion x q) (pieceTargets b (from' m) x))
      \<or> q \<in> set (castlingTargets b (from' m) x)"
    using assms(1) by (auto simp: Piece_getLegalMoves_def)
  from q have "to m = q"
    by (metis Move.select_convs(2))
  moreover have "castlingTargets b (from' m) x = []"
    using assms(2) by (simp add: castlingTargets_def King_canCastle_def needsPromotion_def)
  ultimately show False
    using assms(2) mem by simp
qed

text \<open>
  In this model a pawn's move onto the farthest rank is refused in every game: no move
  carries the promotion choice, and nothing is promoted by default.
\<close>

lemma pawn_to_farthest_rank_is_refused:
  assumes "getPieceAt (board_g g) (from' m) = Some x" and "needsPromotion x (to m)"
  shows "makeMove m g = (False, g)"
  using needsPromotion_not_pseudo_legal [OF assms]
  by (simp add: makeMove_def legalForSideToMove_def isMoveLegal_def assms(1))

lemma exampleGame_in_progress: "inProgress (exampleGame a)"
  by (simp add: inProgress_def exampleGame_def)

lemma exampleGame_e2e4: "legalForSideToMove (exampleGame a) (mv 1 4 3 4)"
  using e2e4_is_legal e2_is_white by (simp add: legalForSideToMove_def exampleGame_def)

lemma a1a4_is_not_legal: "\<not> isMoveLegal (setupInitialPosition emptyBoard) (mv 0 0 3 0)"
  by code_simp

text \<open>
  C2. For a game in progress and a move that is not legal for the side to move,
  \<^verbatim>\<open>makeMove\<close> returns false and the game after the call is the game before it: the
  board, the side to move, the move number, the halfmove clock, the move history and
  the undo stack are what they were.
\<close>

theorem illegal_move_rejected_without_change:
  assumes "inProgress g" and "\<not> legalForSideToMove g m"
  shows "\<not> fst (makeMove m g) \<and> snd (makeMove m g) = g
    \<and> board_g (snd (makeMove m g)) = board_g g
    \<and> currentPlayer_g (snd (makeMove m g)) = currentPlayer_g g
    \<and> moveNumber_g (snd (makeMove m g)) = moveNumber_g g
    \<and> halfMoveClock_g (snd (makeMove m g)) = halfMoveClock_g g
    \<and> moveHistory_g (snd (makeMove m g)) = moveHistory_g g
    \<and> gameStates_g (snd (makeMove m g)) = gameStates_g g"
  using assms by (simp add: makeMove_def)

theorem illegal_move_rejected_without_change_witness:
  "inProgress (exampleGame True) \<and> \<not> legalForSideToMove (exampleGame True) (mv 0 0 3 0)
   \<and> \<not> fst (makeMove (mv 0 0 3 0) (exampleGame True))
   \<and> snd (makeMove (mv 0 0 3 0) (exampleGame True)) = exampleGame True"
proof -
  have illegal: "\<not> legalForSideToMove (exampleGame True) (mv 0 0 3 0)"
    using a1a4_is_not_legal by (simp add: legalForSideToMove_def exampleGame_def)
  show ?thesis
    using exampleGame_in_progress illegal
      illegal_move_rejected_without_change [OF exampleGame_in_progress illegal]
    by blast
qed

text \<open>
  C3, as the spec states it: for every game in progress and every legal move,
  \<^verbatim>\<open>makeMove\<close> followed by \<^verbatim>\<open>undoLastMove\<close> restores the board. It does not when
  undo is disabled: in a game at the starting position with undo disabled, after the
  legal pawn move from row 1 to row 3 in column 4 and the failed undo, the board is
  the board after the move.
\<close>

theorem undo_disabled_counterexample:
  "inProgress (exampleGame False) \<and> legalForSideToMove (exampleGame False) (mv 1 4 3 4)
   \<and> \<not> fst (undoLastMove (snd (makeMove (mv 1 4 3 4) (exampleGame False))))
   \<and> board_g (snd (undoLastMove (snd (makeMove (mv 1 4 3 4) (exampleGame False)))))
       \<noteq> board_g (exampleGame False)"
proof -
  let ?after = "snd (makeMove (mv 1 4 3 4) (exampleGame False))"
  have moved: "applyMove (mv 1 4 3 4) (setupInitialPosition emptyBoard)
      \<noteq> setupInitialPosition emptyBoard"
    by code_simp
  have off: "\<not> allowUndo_g ?after"
    using after_makeMove(2) [OF exampleGame_in_progress exampleGame_e2e4, of False]
    by (simp add: exampleGame_def)
  then have undo: "undoLastMove ?after = (False, ?after)"
    by (simp add: undoLastMove_def)
  have "board_g ?after = applyMove (mv 1 4 3 4) (board_g (exampleGame False))"
    using after_makeMove(1) [OF exampleGame_in_progress exampleGame_e2e4, of False] .
  with moved undo show ?thesis
    using exampleGame_in_progress exampleGame_e2e4 by (simp add: exampleGame_def)
qed

text \<open>
  C3, amended: for every game in progress in which undo is allowed and every move
  legal for the side to move, \<^verbatim>\<open>makeMove\<close> succeeds, the \<^verbatim>\<open>undoLastMove\<close> that
  follows it succeeds, and the game then has the board it had before the move, piece
  for piece, and the same side to move.
\<close>

theorem undo_restores_board_and_side:
  assumes "inProgress g" and "legalForSideToMove g m" and "allowUndo_g g"
  shows "fst (makeMove m g)
     \<and> fst (undoLastMove (snd (makeMove m g)))
     \<and> board_g (snd (undoLastMove (snd (makeMove m g)))) = board_g g
     \<and> currentPlayer_g (snd (undoLastMove (snd (makeMove m g)))) = currentPlayer_g g"
  using assms after_makeMove [OF assms(1,2)]
  by (simp add: undoLastMove_def makeMove_accepts)

theorem undo_restores_board_and_side_witness:
  "inProgress (exampleGame True) \<and> legalForSideToMove (exampleGame True) (mv 1 4 3 4)
   \<and> allowUndo_g (exampleGame True)
   \<and> fst (undoLastMove (snd (makeMove (mv 1 4 3 4) (exampleGame True))))
   \<and> board_g (snd (undoLastMove (snd (makeMove (mv 1 4 3 4) (exampleGame True)))))
       = board_g (exampleGame True)
   \<and> currentPlayer_g (snd (undoLastMove (snd (makeMove (mv 1 4 3 4) (exampleGame True)))))
       = currentPlayer_g (exampleGame True)"
proof -
  have allowed: "allowUndo_g (exampleGame True)"
    by (simp add: exampleGame_def)
  show ?thesis
    using exampleGame_in_progress exampleGame_e2e4 allowed
      undo_restores_board_and_side [OF exampleGame_in_progress exampleGame_e2e4 allowed]
    by blast
qed

section \<open>The engine on the positions the spec names\<close>

text \<open>
  The functions defined from the spec are run on the positions of the spec's list of
  testable properties.
\<close>

lemma ray_fuel:
  "\<not> isValid (shift p ((int n + 1) * fst d) ((int n + 1) * snd d))
   \<Longrightarrow> ray b c p d (n + k) = ray b c p d n"
proof (induction n arbitrary: p)
  case 0
  then have "\<not> isValid (shift p (fst d) (snd d))" by simp
  then show ?case by (cases k) (simp_all add: Let_def)
next
  case (Suc n)
  let ?q = "shift p (fst d) (snd d)"
  have "shift ?q ((int n + 1) * fst d) ((int n + 1) * snd d)
      = shift p ((int (Suc n) + 1) * fst d) ((int (Suc n) + 1) * snd d)"
    by (simp add: shift_def algebra_simps)
  with Suc.prems have "\<not> isValid (shift ?q ((int n + 1) * fst d) ((int n + 1) * snd d))"
    by simp
  then have "ray b c ?q d (n + k) = ray b c ?q d n"
    by (rule Suc.IH)
  then show ?case
    by (simp add: Let_def split: option.split)
qed

text \<open>The bound of seven steps never cuts a walk short: a longer walk finds the same squares.\<close>

lemma seven_steps_suffice:
  assumes "isValid p" and "d \<in> set (rookDirs @ bishopDirs)"
  shows "ray b c p d (7 + k) = ray b c p d 7"
proof -
  have "\<not> isValid (shift p ((int 7 + 1) * fst d) ((int 7 + 1) * snd d))"
    using assms by (auto simp: isValid_def shift_def rookDirs_def bishopDirs_def)
  then show ?thesis by (rule ray_fuel)
qed

text \<open>From the standard starting position the side to move has exactly 20 legal moves.\<close>

lemma start_has_twenty_legal_moves:
  "length (getAllLegalMoves (setupInitialPosition emptyBoard) WHITE) = 20"
  by code_simp

text \<open>
  A pawn may advance two squares from its starting rank; once it has moved it may not.
\<close>

lemma pawn_two_step:
  "isMoveLegal (setupInitialPosition emptyBoard) (mv 1 4 3 4)
   \<and> \<not> isMoveLegal (applyMove (mv 1 4 2 4) (setupInitialPosition emptyBoard)) (mv 2 4 4 4)"
  by code_simp

text \<open>
  An en-passant capture is legal on the move that follows the two-square advance, and
  no longer after each king has made a move in between.
\<close>

lemma en_passant_only_at_once:
  "isMoveLegal enPassantBoard (mv 4 4 5 3)
   \<and> getPieceAt (applyMove (mv 4 4 5 3) enPassantBoard) \<lparr>row = 4, col = 3\<rparr> = None
   \<and> \<not> isMoveLegal (applyMove (mv 7 4 7 5) (applyMove (mv 0 4 0 5) enPassantBoard))
         (mv 4 4 5 3)"
  by code_simp

text \<open>
  Castling is legal on a clear home row and moves the rook next to the king; it is not
  legal when the king is in check, when the king would pass through an attacked
  square, or after the rook has moved away and come back.
\<close>

lemma castling_examples:
  "isMoveLegal castleBoard (mv 0 4 0 6)
   \<and> map_option kind (getPieceAt (applyMove (mv 0 4 0 6) castleBoard) \<lparr>row = 0, col = 5\<rparr>)
       = Some Rook
   \<and> isMoveLegal castleBoard (mv 0 4 0 2)
   \<and> \<not> isMoveLegal (place (Rook, BLACK, 5, 4) castleBoard) (mv 0 4 0 6)
   \<and> \<not> isMoveLegal (place (Rook, BLACK, 5, 5) castleBoard) (mv 0 4 0 6)
   \<and> \<not> isMoveLegal
         (applyMove (mv 1 7 0 7) (applyMove (mv 7 4 7 3) (applyMove (mv 0 7 1 7) castleBoard)))
         (mv 0 4 0 6)"
  by code_simp

text \<open>
  A pawn guards the two squares diagonally ahead of it: the king may not castle
  through or onto a square an enemy pawn guards, and may castle past a square it
  guards that the king does not touch.
\<close>

lemma castling_and_pawns:
  "\<not> isMoveLegal (place (Pawn, BLACK, 1, 6) castleBoard) (mv 0 4 0 6)
   \<and> \<not> King_canCastle (place (Pawn, BLACK, 1, 6) castleBoard) \<lparr>row = 0, col = 4\<rparr>
         \<lparr>kind = King, color_p = WHITE, position_p = \<lparr>row = 0, col = 4\<rparr>,
          hasMoved_p = False\<rparr> True
   \<and> \<not> isMoveLegal (place (Pawn, BLACK, 1, 7) castleBoard) (mv 0 4 0 6)
   \<and> \<not> King_canCastle (place (Pawn, BLACK, 1, 7) castleBoard) \<lparr>row = 0, col = 4\<rparr>
         \<lparr>kind = King, color_p = WHITE, position_p = \<lparr>row = 0, col = 4\<rparr>,
          hasMoved_p = False\<rparr> True
   \<and> isMoveLegal (place (Pawn, BLACK, 1, 0) castleBoard) (mv 0 4 0 2)"
  by code_simp

text \<open>A position with only the two kings is a draw by insufficient material.\<close>

lemma two_kings_draw:
  "fst (makeMove (mv 0 4 1 4) twoKingsGame)
   \<and> getResult (snd (makeMove (mv 0 4 1 4) twoKingsGame)) = DRAW_INSUFFICIENT_MATERIAL
   \<and> isGameOver (snd (makeMove (mv 0 4 1 4) twoKingsGame))"
  by code_simp

lemma checkGameEnd_continues:
  assumes "isMoveLegal (board_g g) m"
    and "hasPieceOfColor (board_g g) (from' m) (currentPlayer_g g)"
    and "\<not> isInsufficientMaterial g" and "\<not> isFiftyMoveRule g"
    and "\<not> isThreefoldRepetition g"
  shows "checkGameEnd g = g"
proof -
  have "m \<in> set (getAllLegalMoves (board_g g) (currentPlayer_g g))"
    using assms(1,2) isMoveLegal_iff by blast
  then have "getAllLegalMoves (board_g g) (currentPlayer_g g) \<noteq> []"
    by auto
  then show ?thesis
    using assms(3-5) by (simp add: checkGameEnd_def isCheckmate_def isStalemate_def)
qed

lemma makeMove_advance:
  assumes "inProgress g" and "legalForSideToMove g m"
    and "checkGameEnd (advance m g) = advance m g"
  shows "makeMove m g = (True, advance m g)"
  using assms by (simp add: makeMove_def advance_def)

lemma makeMove_f3: "makeMove (mv 1 5 2 5) (exampleGame True) = (True, afterF3)"
proof -
  have 1: "inProgress (exampleGame True)" by code_simp
  have 2: "legalForSideToMove (exampleGame True) (mv 1 5 2 5)" by code_simp
  have 3: "isMoveLegal (board_g afterF3) (mv 6 4 4 4)" by code_simp
  have 4: "hasPieceOfColor (board_g afterF3) (from' (mv 6 4 4 4)) (currentPlayer_g afterF3)"
    by code_simp
  have 5: "\<not> isInsufficientMaterial afterF3" by code_simp
  have 6: "\<not> isFiftyMoveRule afterF3" by code_simp
  have 7: "\<not> isThreefoldRepetition afterF3" by code_simp
  show ?thesis
    using makeMove_advance [OF 1 2] checkGameEnd_continues [OF 3 4 5 6 7]
    by (simp add: afterF3_def)
qed

lemma makeMove_e5: "makeMove (mv 6 4 4 4) afterF3 = (True, afterE5)"
proof -
  have 1: "inProgress afterF3" by code_simp
  have 2: "legalForSideToMove afterF3 (mv 6 4 4 4)" by code_simp
  have 3: "isMoveLegal (board_g afterE5) (mv 1 6 3 6)" by code_simp
  have 4: "hasPieceOfColor (board_g afterE5) (from' (mv 1 6 3 6)) (currentPlayer_g afterE5)"
    by code_simp
  have 5: "\<not> isInsufficientMaterial afterE5" by code_simp
  have 6: "\<not> isFiftyMoveRule afterE5" by code_simp
  have 7: "\<not> isThreefoldRepetition afterE5" by code_simp
  show ?thesis
    using makeMove_advance [OF 1 2] checkGameEnd_continues [OF 3 4 5 6 7]
    by (simp add: afterE5_def)
qed

lemma makeMove_g4: "makeMove (mv 1 6 3 6) afterE5 = (True, afterG4)"
proof -
  have 1: "inProgress afterE5" by code_simp
  have 2: "legalForSideToMove afterE5 (mv 1 6 3 6)" by code_simp
  have 3: "isMoveLegal (board_g afterG4) (mv 7 3 3 7)" by code_simp
  have 4: "hasPieceOfColor (board_g afterG4) (from' (mv 7 3 3 7)) (currentPlayer_g afterG4)"
    by code_simp
  have 5: "\<not> isInsufficientMaterial afterG4" by code_simp
  have 6: "\<not> isFiftyMoveRule afterG4" by code_simp
  have 7: "\<not> isThreefoldRepetition afterG4" by code_simp
  show ?thesis
    using makeMove_advance [OF 1 2] checkGameEnd_continues [OF 3 4 5 6 7]
    by (simp add: afterG4_def)
qed

lemma white_is_mated: "isCheckmate afterQh4"
  by code_simp

lemma makeMove_Qh4: "makeMove (mv 7 3 3 7) afterG4 = (True, endWith BLACK_WINS afterQh4)"
proof -
  have 1: "inProgress afterG4" by code_simp
  have 2: "legalForSideToMove afterG4 (mv 7 3 3 7)" by code_simp
  have 3: "currentPlayer_g afterQh4 = WHITE" by code_simp
  show ?thesis
    using 1 2 3 white_is_mated
    by (simp add: makeMove_def checkGameEnd_def afterQh4_def advance_def)
qed

text \<open>
  The four moves of the shortest mate, submitted one after the other to a game at the
  starting position, are all accepted and end the game with Black as the winner.
\<close>

lemma shortest_mate:
  "snd (makeMove (mv 7 3 3 7) (snd (makeMove (mv 1 6 3 6) (snd (makeMove (mv 6 4 4 4)
      (snd (makeMove (mv 1 5 2 5) (exampleGame True))))))))
   = endWith BLACK_WINS afterQh4
   \<and> getResult (endWith BLACK_WINS afterQh4) = BLACK_WINS
   \<and> isGameOver (endWith BLACK_WINS afterQh4)"
  by (simp add: makeMove_f3 makeMove_e5 makeMove_g4 makeMove_Qh4 getResult_def isGameOver_def
        endWith_def)

end
